theory Spec2Isabelle
  imports Main "HOL-Library.Sublist"
begin

section \<open>Python strings\<close>

text \<open>
  A Python \<^verbatim>\<open>str\<close> is a sequence of Unicode code points, so it is modelled as a list of
  natural numbers, one per code point. \<open>lit\<close> turns an ASCII literal into such a
  sequence (for ASCII the byte and the code point coincide).
\<close>

type_synonym codepoint = nat
type_synonym pystr = "codepoint list"

definition lit :: "string \<Rightarrow> pystr" where
  "lit s = map of_char s"

text \<open>
  The characters that \<^verbatim>\<open>str.split()\<close> and \<^verbatim>\<open>str.isspace()\<close> treat as whitespace:
  the ASCII controls 0x09-0x0D and 0x1C-0x1F, the space, and the Unicode white space
  beyond ASCII.
\<close>

definition isspace :: "codepoint \<Rightarrow> bool" where
  "isspace c \<longleftrightarrow>
     (9 \<le> c \<and> c \<le> 13) \<or> (28 \<le> c \<and> c \<le> 32) \<or> c = 0x85 \<or> c = 0xA0 \<or> c = 0x1680 \<or>
     (0x2000 \<le> c \<and> c \<le> 0x200A) \<or> c = 0x2028 \<or> c = 0x2029 \<or> c = 0x202F \<or>
     c = 0x205F \<or> c = 0x3000"

text \<open>
  \<^verbatim>\<open>s.split()\<close> with no separator: skip a run of whitespace, stop at the end of the
  string, otherwise cut the token up to the next whitespace and go on behind it. No
  token is empty, and leading and trailing whitespace give no token.
\<close>

function split :: "pystr \<Rightarrow> pystr list" where
  "split s =
     (let s1 = dropWhile isspace s in
      if s1 = [] then []
      else takeWhile (\<lambda>c. \<not> isspace c) s1 # split (dropWhile (\<lambda>c. \<not> isspace c) s1))"
  by pat_completeness auto

termination split
proof (relation "measure length")
  show "wf (measure length)"
    by simp
next
  fix s s1 :: pystr
  assume s1: "s1 = dropWhile isspace s" and ne: "s1 \<noteq> []"
  obtain c r where cr: "s1 = c # r"
    using ne by (cases s1) auto
  have "\<not> isspace (hd s1)"
    using ne unfolding s1 by (rule hd_dropWhile)
  then have "\<not> isspace c"
    by (simp add: cr)
  then have "dropWhile (\<lambda>c. \<not> isspace c) s1 = dropWhile (\<lambda>c. \<not> isspace c) r"
    using cr by simp
  moreover have "length (dropWhile (\<lambda>c. \<not> isspace c) r) \<le> length r"
    by (rule length_dropWhile_le)
  moreover have "length s1 \<le> length s"
    unfolding s1 by (rule length_dropWhile_le)
  ultimately have "length (dropWhile (\<lambda>c. \<not> isspace c) s1) < length s"
    using cr by simp
  then show "(dropWhile (\<lambda>c. \<not> isspace c) s1, s) \<in> measure length"
    by simp
qed

declare split.simps [simp del]

section \<open>Standard output and the record of calls\<close>

text \<open>
  \<^verbatim>\<open>print(x1, ..., xn)\<close> writes the arguments, already converted to text, separated by
  one space and ended by a newline. The standard output stream is the text written so
  far.
\<close>

fun join :: "pystr \<Rightarrow> pystr list \<Rightarrow> pystr" where
  "join sep [] = []"
| "join sep [x] = x"
| "join sep (x # y # ys) = x @ sep @ join sep (y # ys)"

definition print :: "pystr list \<Rightarrow> pystr \<Rightarrow> pystr" where
  "print xs out = out @ join (lit '' '') xs @ lit ''\<newline>''"

text \<open>
  The world \<^verbatim>\<open>typechecker\<close> acts on: the standard output stream and the argument lists
  that \<^verbatim>\<open>mypy.api.run\<close> has been called with, oldest first.
\<close>

record world =
  stdout :: pystr
  calls :: "pystr list list"

definition printed :: "world \<Rightarrow> world \<Rightarrow> pystr" where
  "printed w w' = drop (length (stdout w)) (stdout w')"

section \<open>The cell magic of mypycheck.py\<close>

text \<open>
  \<^verbatim>\<open>from mypy.api import run\<close> either raises \<^verbatim>\<open>ImportError\<close> or binds \<^verbatim>\<open>run\<close>, a function
  from an argument list to the triple (stdout text, stderr text, exit status). The
  call of \<^verbatim>\<open>run\<close> is not guarded by the source, so an exception \<open>'e\<close> that it raises
  leaves \<^verbatim>\<open>typechecker\<close> as it is.
\<close>

datatype 'e import_outcome =
    ImportError
  | Imported "pystr list \<Rightarrow> 'e + pystr \<times> pystr \<times> int"

text \<open>
  The Python values a call can hand back here: \<^verbatim>\<open>None\<close> (what a function gives that
  ends without \<^verbatim>\<open>return\<close>), a string, an integer.
\<close>

datatype pyvalue = PyNone | PyStr pystr | PyInt int

definition not_installed :: pystr where
  "not_installed =
     lit (CHR 0x27 # ''mypy'' @ CHR 0x27 # '' not installed. Did you run ''
          @ CHR 0x27 # ''pip install mypy'' @ CHR 0x27 # ''?'')"

definition report_header :: pystr where
  "report_header = lit ''\<newline>Type checking report:\<newline>''"

definition error_header :: pystr where
  "error_header = lit ''\<newline>Error report:\<newline>''"

definition typechecker ::
  "'e import_outcome \<Rightarrow> pystr \<Rightarrow> pystr \<Rightarrow> world \<Rightarrow> ('e + pyvalue) \<times> world" where
  "typechecker imp line cell w =
     (case imp of
        ImportError \<Rightarrow> (Inr (PyStr not_installed), w)
      | Imported run \<Rightarrow>
          (let args = (if line \<noteq> [] then split line else []);
               argv = [lit ''-c'', cell] @ args;
               w1 = w\<lparr>calls := calls w @ [argv]\<rparr>
           in case run argv of
                Inl e \<Rightarrow> (Inl e, w1)
              | Inr result \<Rightarrow>
                  (let w2 = (if fst result \<noteq> []
                             then w1\<lparr>stdout := print [fst result]
                                                (print [report_header] (stdout w1))\<rparr>
                             else w1);
                       w3 = (if fst (snd result) \<noteq> []
                             then w2\<lparr>stdout := print [fst (snd result)]
                                                (print [error_header] (stdout w2))\<rparr>
                             else w2)
                   in (Inr (PyInt (snd (snd result))), w3))))"

section \<open>The demonstration script mytuples.py\<close>

text \<open>
  A Python tuple is an immutable sequence; \<^verbatim>\<open>tuple(x)\<close> builds the tuple of the items
  of \<open>x\<close>, here of the tuple display \<^verbatim>\<open>(a, b, c)\<close>. Python integers are unbounded.
\<close>

datatype 'a tuple = Tuple (items: "'a list")

definition tuple :: "'a tuple \<Rightarrow> 'a tuple" where
  "tuple x = Tuple (items x)"

definition my_tuple0 :: "int \<Rightarrow> int \<Rightarrow> int \<Rightarrow> int tuple" where
  "my_tuple0 a b c = tuple (Tuple [a, b, c])"

text \<open>The second \<^verbatim>\<open>def my_tuple0\<close> of the script (line 19), which rebinds the name.\<close>

definition my_tuple0_redef :: "int \<Rightarrow> int \<Rightarrow> int \<Rightarrow> int tuple" where
  "my_tuple0_redef a b c = tuple (Tuple [a, b, c])"

text \<open>
  A \<^verbatim>\<open>def\<close> statement creates a function object whose \<^verbatim>\<open>__annotations__\<close> is a
  dictionary with the annotated parameters in their order, then the key \<^verbatim>\<open>return\<close>.
  The dictionary is kept as an association list, since printing shows its order. The
  annotations used are the classes \<^verbatim>\<open>int\<close> and \<^verbatim>\<open>tuple\<close>.
\<close>

datatype pytype = Int_class | Tuple_class

record funobj =
  call :: "int \<Rightarrow> int \<Rightarrow> int \<Rightarrow> int tuple"
  annotations :: "(pystr \<times> pytype) list"

definition def_function ::
  "(pystr \<times> pytype) list \<Rightarrow> pytype \<Rightarrow> (int \<Rightarrow> int \<Rightarrow> int \<Rightarrow> int tuple) \<Rightarrow> funobj" where
  "def_function params ret body =
     \<lparr>call = body, annotations = params @ [(lit ''return'', ret)]\<rparr>"

definition my_tuple0_def :: funobj where
  "my_tuple0_def =
     def_function [(lit ''a'', Int_class), (lit ''b'', Int_class), (lit ''c'', Int_class)]
       Tuple_class my_tuple0"

definition my_tuple0_redef_def :: funobj where
  "my_tuple0_redef_def =
     def_function [(lit ''a'', Int_class), (lit ''b'', Int_class), (lit ''c'', Int_class)]
       Tuple_class my_tuple0_redef"

text \<open>What \<^verbatim>\<open>print\<close> shows for an integer, a tuple of integers, a class and a dictionary.\<close>

fun digits :: "nat \<Rightarrow> pystr" where
  "digits n = (if n < 10 then [48 + n] else digits (n div 10) @ [48 + n mod 10])"

definition repr_int :: "int \<Rightarrow> pystr" where
  "repr_int i = (if i < 0 then lit ''-'' @ digits (nat (- i)) else digits (nat i))"

definition repr_tuple :: "int tuple \<Rightarrow> pystr" where
  "repr_tuple t =
     (case items t of
        [x] \<Rightarrow> lit ''('' @ repr_int x @ lit '',)''
      | xs \<Rightarrow> lit ''('' @ join (lit '', '') (map repr_int xs) @ lit '')'')"

fun repr_type :: "pytype \<Rightarrow> pystr" where
  "repr_type Int_class = lit ''<class 'int'>''"
| "repr_type Tuple_class = lit ''<class 'tuple'>''"

text \<open>The keys shown are plain identifiers, which \<^verbatim>\<open>repr\<close> puts between single quotes.\<close>

definition repr_key :: "pystr \<Rightarrow> pystr" where
  "repr_key k = [39] @ k @ [39]"

definition repr_dict :: "(pystr \<times> pytype) list \<Rightarrow> pystr" where
  "repr_dict d =
     lit ''{'' @ join (lit '', '') (map (\<lambda>(k, v). repr_key k @ lit '': '' @ repr_type v) d)
       @ lit ''}''"

text \<open>
  The three statements that follow each \<^verbatim>\<open>def\<close>: call the function bound to
  \<^verbatim>\<open>my_tuple0\<close> with 4, 7 and -5, print the tuple, print the annotations.
\<close>

definition demo :: "funobj \<Rightarrow> pystr \<Rightarrow> pystr" where
  "demo f out =
     (let t47_5 = call f 4 7 (- 5);
          out1 = print [lit ''A tuple of int: '', repr_tuple t47_5] out
      in print [lit ''Type annotations of my_tuple function: \<newline>'',
                repr_dict (annotations f)] out1)"

text \<open>The whole script: the first definition and its three statements, then the second.\<close>

definition mytuples :: "pystr \<Rightarrow> pystr" where
  "mytuples out = demo my_tuple0_redef_def (demo my_tuple0_def out)"

section \<open>Facts about splitting\<close>

lemma split_Nil [simp]: "split [] = []"
  by (simp add: split.simps)

lemma split_space_Cons [simp]: "isspace c \<Longrightarrow> split (c # s) = split s"
  by (subst split.simps, subst (2) split.simps) simp

lemma split_token_Cons [simp]:
  "\<not> isspace c \<Longrightarrow>
   split (c # s) =
     (c # takeWhile (\<lambda>c. \<not> isspace c) s) # split (dropWhile (\<lambda>c. \<not> isspace c) s)"
  by (subst split.simps) simp

lemma split_all_space: "\<forall>c\<in>set s. isspace c \<Longrightarrow> split s = []"
  by (induction s) simp_all

text \<open>Every token is non-empty and free of whitespace.\<close>

lemma split_tokens: "t \<in> set (split s) \<Longrightarrow> t \<noteq> [] \<and> (\<forall>c\<in>set t. \<not> isspace c)"
proof (induction s arbitrary: t rule: split.induct)
  case (1 s)
  show ?case
  proof (cases "dropWhile isspace s = []")
    case True
    then have "split s = []"
      by (subst split.simps) (simp add: Let_def)
    with "1.prems" show ?thesis
      by simp
  next
    case False
    then obtain c r where cr: "dropWhile isspace s = c # r"
      by (cases "dropWhile isspace s") simp_all
    have "\<not> isspace (hd (dropWhile isspace s))"
      using False by (rule hd_dropWhile)
    then have c: "\<not> isspace c"
      unfolding cr by simp
    have eq: "split s = (c # takeWhile (\<lambda>c. \<not> isspace c) r)
        # split (dropWhile (\<lambda>c. \<not> isspace c) (dropWhile isspace s))"
      using c by (subst split.simps) (simp add: Let_def cr)
    have "t = c # takeWhile (\<lambda>c. \<not> isspace c) r
        \<or> t \<in> set (split (dropWhile (\<lambda>c. \<not> isspace c) (dropWhile isspace s)))"
      using "1.prems" unfolding eq by simp
    then show ?thesis
    proof
      assume t: "t = c # takeWhile (\<lambda>c. \<not> isspace c) r"
      have "\<forall>x\<in>set (takeWhile (\<lambda>c. \<not> isspace c) r). \<not> isspace x"
        by (blast dest: set_takeWhileD)
      then show ?thesis
        unfolding t using c by simp
    next
      assume "t \<in> set (split (dropWhile (\<lambda>c. \<not> isspace c) (dropWhile isspace s)))"
      then show ?thesis
        by (rule "1.IH" [OF refl False])
    qed
  qed
qed

text \<open>The tokens keep the non-whitespace characters of the string, in their order.\<close>

lemma concat_split: "concat (split s) = filter (\<lambda>c. \<not> isspace c) s"
proof (induction s rule: split.induct)
  case (1 s)
  have fd: "filter (\<lambda>c. \<not> isspace c) s = filter (\<lambda>c. \<not> isspace c) (dropWhile isspace s)"
    by (induction s) auto
  show ?case
  proof (cases "dropWhile isspace s = []")
    case True
    then have "split s = []" by (subst split.simps) (simp add: Let_def)
    with True fd show ?thesis by simp
  next
    case False
    then have eq: "split s = takeWhile (\<lambda>c. \<not> isspace c) (dropWhile isspace s)
        # split (dropWhile (\<lambda>c. \<not> isspace c) (dropWhile isspace s))"
      by (subst split.simps) (simp add: Let_def)
    have tk: "filter (\<lambda>c. \<not> isspace c) (takeWhile (\<lambda>c. \<not> isspace c) xs) = takeWhile (\<lambda>c. \<not> isspace c) xs" for xs
      by (induction xs) auto
    have "filter (\<lambda>c. \<not> isspace c) (dropWhile isspace s) =
        filter (\<lambda>c. \<not> isspace c) (takeWhile (\<lambda>c. \<not> isspace c) (dropWhile isspace s) @ dropWhile (\<lambda>c. \<not> isspace c) (dropWhile isspace s))"
      by simp
    also have "\<dots> = takeWhile (\<lambda>c. \<not> isspace c) (dropWhile isspace s) @ filter (\<lambda>c. \<not> isspace c) (dropWhile (\<lambda>c. \<not> isspace c) (dropWhile isspace s))"
      unfolding filter_append tk ..
    finally show ?thesis
      using eq "1.IH" [OF refl False] fd by simp
  qed
qed

text \<open>Tokens separated by single spaces are split into the same tokens, in order.\<close>

lemma split_token_alone:
  assumes "t \<noteq> []" and "\<forall>c\<in>set t. \<not> isspace c"
  shows "split t = [t]"
proof -
  obtain c r where t: "t = c # r"
    using assms(1) by (cases t) auto
  with assms(2) have "\<not> isspace c" and r: "\<forall>x\<in>set r. \<not> isspace x"
    by simp_all
  then show ?thesis
    unfolding t by (simp add: takeWhile_eq_all_conv [THEN iffD2] dropWhile_eq_Nil_conv [THEN iffD2])
qed

lemma split_token_then_space:
  assumes "t \<noteq> []" and "\<forall>c\<in>set t. \<not> isspace c" and "isspace d"
  shows "split (t @ d # s) = t # split s"
proof -
  obtain c r where t: "t = c # r"
    using assms(1) by (cases t) auto
  with assms(2) have c: "\<not> isspace c" and r: "\<forall>x\<in>set r. \<not> isspace x"
    by simp_all
  have "takeWhile (\<lambda>c. \<not> isspace c) (r @ d # s) = r"
    using r assms(3) by (simp add: takeWhile_append2)
  moreover have "dropWhile (\<lambda>c. \<not> isspace c) (r @ d # s) = d # s"
    using r assms(3) by (simp add: dropWhile_append2)
  ultimately show ?thesis
    unfolding t using c assms(3) by simp
qed

lemma split_join:
  assumes "\<forall>t\<in>set ts. t \<noteq> [] \<and> (\<forall>c\<in>set t. \<not> isspace c)"
  shows "split (join (lit '' '') ts) = ts"
  using assms
proof (induction "lit '' ''" ts rule: join.induct)
  case 1
  then show ?case by simp
next
  case (2 x)
  then show ?case by (simp add: split_token_alone)
next
  case (3 x y ys)
  have sp: "lit '' '' = [32]" by (simp add: lit_def)
  have "isspace 32" by (simp add: isspace_def)
  then have "split (x @ 32 # join [32] (y # ys)) = x # split (join [32] (y # ys))"
    using "3.prems" by (intro split_token_then_space) simp_all
  then show ?case
    using 3 by (simp add: sp)
qed


section \<open>Facts about the cell magic\<close>

lemma typechecker_Imported_Inr:
  assumes "run ([lit ''-c'', cell] @ split line) = Inr (out, err, status)"
  shows "typechecker (Imported run) line cell w =
           (Inr (PyInt status),
            \<lparr>stdout = stdout w
                @ (if out \<noteq> [] then report_header @ lit ''\<newline>'' @ out @ lit ''\<newline>'' else [])
                @ (if err \<noteq> [] then error_header @ lit ''\<newline>'' @ err @ lit ''\<newline>'' else []),
             calls = calls w @ [[lit ''-c'', cell] @ split line]\<rparr>)"
proof (cases "line = []")
  case True
  with assms show ?thesis
    by (simp add: typechecker_def print_def)
next
  case False
  with assms show ?thesis
    by (simp add: typechecker_def print_def)
qed

lemma typechecker_Imported_Inl:
  assumes "run ([lit ''-c'', cell] @ split line) = Inl e"
  shows "typechecker (Imported run) line cell w =
           (Inl e, w\<lparr>calls := calls w @ [[lit ''-c'', cell] @ split line]\<rparr>)"
proof (cases "line = []")
  case True
  with assms show ?thesis
    by (simp add: typechecker_def)
next
  case False
  with assms show ?thesis
    by (simp add: typechecker_def)
qed

lemma typechecker_calls:
  "calls (snd (typechecker (Imported run) line cell w)) =
     calls w @ [[lit ''-c'', cell] @ split line]"
proof (cases "run ([lit ''-c'', cell] @ split line)")
  case (Inl e)
  then show ?thesis by (simp add: typechecker_Imported_Inl)
next
  case (Inr result)
  then obtain out err status where "run ([lit ''-c'', cell] @ split line) = Inr (out, err, status)"
    by (cases result) auto
  then show ?thesis by (simp add: typechecker_Imported_Inr)
qed

text \<open>
  The result is what \<^verbatim>\<open>run\<close> gives at the argument list \<^verbatim>\<open>-c\<close>, cell, tokens: its
  exception, or the status of its triple.
\<close>

lemma typechecker_result:
  "fst (typechecker (Imported run) line cell w) =
     (case run ([lit ''-c'', cell] @ split line) of
        Inl e \<Rightarrow> Inl e
      | Inr (out, err, status) \<Rightarrow> Inr (PyInt status))"
proof (cases "run ([lit ''-c'', cell] @ split line)")
  case (Inl e)
  then show ?thesis by (simp add: typechecker_Imported_Inl)
next
  case (Inr result)
  then obtain out err status where "run ([lit ''-c'', cell] @ split line) = Inr (out, err, status)"
    by (cases result) auto
  then show ?thesis by (simp add: typechecker_Imported_Inr)
qed

lemma typechecker_no_tokens:
  assumes "split line = []"
  shows "typechecker (Imported run) line cell w = typechecker (Imported run) [] cell w"
  using assms by (simp add: typechecker_def)

lemma ok_summary_no_error_header:
  "\<not> sublist error_header (lit ''\<newline>Type checking report:\<newline>\<newline>ok summary\<newline>'')"
  by (simp add: error_header_def lit_def sublist_code)

section \<open>Facts about the demonstration script\<close>

lemma repr_t47_5: "repr_tuple (Tuple [4, 7, - 5]) = lit ''(4, 7, -5)''"
  by (simp add: repr_tuple_def repr_int_def lit_def)

lemma annotations_my_tuple0_def:
  "annotations my_tuple0_def =
     [(lit ''a'', Int_class), (lit ''b'', Int_class), (lit ''c'', Int_class),
      (lit ''return'', Tuple_class)]"
  by (simp add: my_tuple0_def_def def_function_def)

lemma annotations_my_tuple0_redef_def:
  "annotations my_tuple0_redef_def =
     [(lit ''a'', Int_class), (lit ''b'', Int_class), (lit ''c'', Int_class),
      (lit ''return'', Tuple_class)]"
  by (simp add: my_tuple0_redef_def_def def_function_def)

lemma repr_annotations:
  "repr_dict [(lit ''a'', Int_class), (lit ''b'', Int_class), (lit ''c'', Int_class),
      (lit ''return'', Tuple_class)] =
     lit ''{'a': <class 'int'>, 'b': <class 'int'>, 'c': <class 'int'>, 'return': <class 'tuple'>}''"
  by (simp add: repr_dict_def repr_key_def lit_def)

lemma my_tuple0_eq: "my_tuple0 a b c = Tuple [a, b, c]"
  by (simp add: my_tuple0_def tuple_def)

lemma my_tuple0_redef_eq: "my_tuple0_redef a b c = Tuple [a, b, c]"
  by (simp add: my_tuple0_redef_def tuple_def)

lemma demo_output:
  assumes "call f 4 7 (- 5) = Tuple [4, 7, - 5]"
    and "annotations f = [(lit ''a'', Int_class), (lit ''b'', Int_class), (lit ''c'', Int_class),
      (lit ''return'', Tuple_class)]"
  shows "demo f out =
     out @ lit ''A tuple of int:  (4, 7, -5)\<newline>''
         @ lit ''Type annotations of my_tuple function: \<newline> {'a': <class 'int'>, 'b': <class 'int'>, 'c': <class 'int'>, 'return': <class 'tuple'>}\<newline>''"
  unfolding demo_def Let_def assms repr_t47_5 repr_annotations
  by (simp add: print_def lit_def)

section \<open>The import fails\<close>

text \<open>
  C1. Whatever the line and the cell, when \<^verbatim>\<open>from mypy.api import run\<close> raises
  \<^verbatim>\<open>ImportError\<close>, \<^verbatim>\<open>typechecker\<close> returns a string (it raises nothing), the string
  contains \<^verbatim>\<open>mypy\<close> and \<^verbatim>\<open>pip install mypy\<close>, and the world is left as it was: nothing
  is printed and \<^verbatim>\<open>run\<close> is not called.
\<close>

theorem typechecker_import_error:
  "typechecker ImportError line cell w = (Inr (PyStr not_installed), w)
   \<and> printed w (snd (typechecker ImportError line cell w)) = []
   \<and> sublist (lit ''mypy'') not_installed
   \<and> sublist (lit ''pip install mypy'') not_installed"
proof (intro conjI)
  show "typechecker ImportError line cell w = (Inr (PyStr not_installed), w)"
    by (simp add: typechecker_def)
  show "printed w (snd (typechecker ImportError line cell w)) = []"
    by (simp add: typechecker_def printed_def)
  show "sublist (lit ''mypy'') not_installed"
    by (simp add: not_installed_def lit_def sublist_code)
  show "sublist (lit ''pip install mypy'') not_installed"
    by (simp add: not_installed_def lit_def sublist_code)
qed

section \<open>The arguments of the call\<close>


section \<open>The printed reports\<close>

text \<open>
  C3. When \<^verbatim>\<open>run\<close> returns the triple (out, err, status), \<^verbatim>\<open>typechecker\<close> appends to
  the standard output the report header and \<open>out\<close> exactly when \<open>out\<close> is not empty,
  then the error header and \<open>err\<close> exactly when \<open>err\<close> is not empty, and nothing
  else. For the triple (\<^verbatim>\<open>ok summary\<close>, empty, 1) the output is the report header and
  \<^verbatim>\<open>ok summary\<close>, without the error header.
\<close>

theorem typechecker_prints_reports:
  assumes "run ([lit ''-c'', cell] @ split line) = Inr (out, err, status)"
  shows "stdout (snd (typechecker (Imported run) line cell w)) =
           stdout w
             @ (if out \<noteq> [] then report_header @ lit ''\<newline>'' @ out @ lit ''\<newline>'' else [])
             @ (if err \<noteq> [] then error_header @ lit ''\<newline>'' @ err @ lit ''\<newline>'' else [])
         \<and> (out = lit ''ok summary'' \<and> err = [] \<longrightarrow>
              printed w (snd (typechecker (Imported run) line cell w)) =
                lit ''\<newline>Type checking report:\<newline>\<newline>ok summary\<newline>''
              \<and> \<not> sublist error_header (printed w (snd (typechecker (Imported run) line cell w))))"
proof (intro conjI impI)
  show "stdout (snd (typechecker (Imported run) line cell w)) =
           stdout w
             @ (if out \<noteq> [] then report_header @ lit ''\<newline>'' @ out @ lit ''\<newline>'' else [])
             @ (if err \<noteq> [] then error_header @ lit ''\<newline>'' @ err @ lit ''\<newline>'' else [])"
    using assms by (simp add: typechecker_Imported_Inr)
next
  assume ok: "out = lit ''ok summary'' \<and> err = []"
  show p: "printed w (snd (typechecker (Imported run) line cell w)) =
          lit ''\<newline>Type checking report:\<newline>\<newline>ok summary\<newline>''"
    using ok assms by (simp add: typechecker_Imported_Inr printed_def report_header_def lit_def)
  show "\<not> sublist error_header (printed w (snd (typechecker (Imported run) line cell w)))"
    unfolding p by (rule ok_summary_no_error_header)
qed

theorem typechecker_prints_reports_witness:
  "(\<lambda>argv. Inr (lit ''ok summary'', [], 1) :: unit + pystr \<times> pystr \<times> int)
       ([lit ''-c'', lit ''x = 1''] @ split (lit ''--strict extra'')) = Inr (lit ''ok summary'', [], 1)
   \<and> lit ''ok summary'' = lit ''ok summary'' \<and> ([] :: pystr) = []
   \<and> stdout (snd (typechecker (Imported (\<lambda>argv. Inr (lit ''ok summary'', [], 1) :: unit + pystr \<times> pystr \<times> int))
        (lit ''--strict extra'') (lit ''x = 1'') \<lparr>stdout = [], calls = []\<rparr>)) =
       lit ''\<newline>Type checking report:\<newline>\<newline>ok summary\<newline>''
   \<and> \<not> sublist error_header (printed \<lparr>stdout = [], calls = []\<rparr>
        (snd (typechecker (Imported (\<lambda>argv. Inr (lit ''ok summary'', [], 1) :: unit + pystr \<times> pystr \<times> int))
           (lit ''--strict extra'') (lit ''x = 1'') \<lparr>stdout = [], calls = []\<rparr>)))"
proof -
  note t = typechecker_prints_reports [of "(\<lambda>argv. Inr (lit ''ok summary'', [], 1) :: unit + pystr \<times> pystr \<times> int)"
      "lit ''x = 1''" "lit ''--strict extra''" "lit ''ok summary''" "[]" 1 "\<lparr>stdout = [], calls = []\<rparr>", OF refl]
  from t have p: "printed \<lparr>stdout = [], calls = []\<rparr>
        (snd (typechecker (Imported (\<lambda>argv. Inr (lit ''ok summary'', [], 1) :: unit + pystr \<times> pystr \<times> int))
           (lit ''--strict extra'') (lit ''x = 1'') \<lparr>stdout = [], calls = []\<rparr>)) =
       lit ''\<newline>Type checking report:\<newline>\<newline>ok summary\<newline>''"
    by blast
  from t have n: "\<not> sublist error_header (printed \<lparr>stdout = [], calls = []\<rparr>
        (snd (typechecker (Imported (\<lambda>argv. Inr (lit ''ok summary'', [], 1) :: unit + pystr \<times> pystr \<times> int))
           (lit ''--strict extra'') (lit ''x = 1'') \<lparr>stdout = [], calls = []\<rparr>)))"
    by blast
  from p have "stdout (snd (typechecker (Imported (\<lambda>argv. Inr (lit ''ok summary'', [], 1) :: unit + pystr \<times> pystr \<times> int))
        (lit ''--strict extra'') (lit ''x = 1'') \<lparr>stdout = [], calls = []\<rparr>)) =
       lit ''\<newline>Type checking report:\<newline>\<newline>ok summary\<newline>''"
    by (simp add: printed_def)
  with n show ?thesis
    by simp
qed

section \<open>The returned status\<close>

text \<open>
  C4. When \<^verbatim>\<open>run\<close> returns the triple (out, err, status), \<^verbatim>\<open>typechecker\<close> returns the
  integer \<open>status\<close>. For the triple (empty, empty, 0) it prints nothing and returns 0.
\<close>

theorem typechecker_returns_status:
  assumes "run ([lit ''-c'', cell] @ split line) = Inr (out, err, status)"
  shows "fst (typechecker (Imported run) line cell w) = Inr (PyInt status)
         \<and> (out = [] \<and> err = [] \<and> status = 0 \<longrightarrow>
              fst (typechecker (Imported run) line cell w) = Inr (PyInt 0)
              \<and> stdout (snd (typechecker (Imported run) line cell w)) = stdout w
              \<and> printed w (snd (typechecker (Imported run) line cell w)) = [])"
  using assms by (simp add: typechecker_Imported_Inr printed_def)

theorem typechecker_returns_status_witness:
  "(\<lambda>argv. Inr ([], [], 0) :: unit + pystr \<times> pystr \<times> int)
       ([lit ''-c'', lit ''x = 1''] @ split []) = Inr ([], [], 0)
   \<and> ([] :: pystr) = [] \<and> (0 :: int) = 0
   \<and> typechecker (Imported (\<lambda>argv. Inr ([], [], 0) :: unit + pystr \<times> pystr \<times> int))
        [] (lit ''x = 1'') \<lparr>stdout = lit ''before'', calls = []\<rparr> =
       (Inr (PyInt 0), \<lparr>stdout = lit ''before'', calls = [[lit ''-c'', lit ''x = 1'']]\<rparr>)"
  using typechecker_returns_status [of "(\<lambda>argv. Inr ([], [], 0) :: unit + pystr \<times> pystr \<times> int)"
      "lit ''x = 1''" "[]" "[]" "[]" 0 "\<lparr>stdout = lit ''before'', calls = []\<rparr>"]
    typechecker_calls [of "(\<lambda>argv. Inr ([], [], 0) :: unit + pystr \<times> pystr \<times> int)"
      "[]" "lit ''x = 1''" "\<lparr>stdout = lit ''before'', calls = []\<rparr>"]
  by (cases "typechecker (Imported (\<lambda>argv. Inr ([], [], 0) :: unit + pystr \<times> pystr \<times> int))
        [] (lit ''x = 1'') \<lparr>stdout = lit ''before'', calls = []\<rparr>") (simp add: world.equality)

section \<open>The shape of the result\<close>

text \<open>
  C5. The result of \<^verbatim>\<open>typechecker\<close> is a string exactly when the import fails, and
  then it is the message; it is the integer \<open>n\<close> exactly when the import succeeds and
  \<^verbatim>\<open>run\<close> returns a triple of two strings and the exit status \<open>n\<close>. No other value is
  returned, \<^verbatim>\<open>None\<close> neither; the only other outcome is that \<^verbatim>\<open>run\<close> itself raises,
  and then \<^verbatim>\<open>typechecker\<close> raises the same and returns no result.
\<close>

theorem typechecker_result_shape:
  "fst (typechecker imp line cell w) =
     (case imp of
        ImportError \<Rightarrow> Inr (PyStr not_installed)
      | Imported run \<Rightarrow>
          (case run ([lit ''-c'', cell] @ split line) of
             Inl e \<Rightarrow> Inl e
           | Inr (out, err, status) \<Rightarrow> Inr (PyInt status)))
   \<and> (fst (typechecker imp line cell w) = Inr (PyStr s) \<longleftrightarrow>
        imp = ImportError \<and> s = not_installed)
   \<and> (fst (typechecker imp line cell w) = Inr (PyInt n) \<longleftrightarrow>
        (\<exists>run out err. imp = Imported run
            \<and> run ([lit ''-c'', cell] @ split line) = Inr (out, err, n)))
   \<and> (fst (typechecker imp line cell w) = Inl e \<longleftrightarrow>
        (\<exists>run. imp = Imported run \<and> run ([lit ''-c'', cell] @ split line) = Inl e))
   \<and> fst (typechecker imp line cell w) \<noteq> Inr PyNone"
proof (cases imp)
  case ImportError
  then show ?thesis
    by (auto simp add: typechecker_def)
next
  case (Imported run)
  show ?thesis
  proof (cases "run ([lit ''-c'', cell] @ split line)")
    case (Inl e')
    then show ?thesis
      unfolding Imported by (auto simp add: typechecker_result)
  next
    case (Inr result)
    then obtain out err status where
      r: "run ([lit ''-c'', cell] @ split line) = Inr (out, err, status)"
      by (cases result) auto
    then show ?thesis
      unfolding Imported by (auto simp add: typechecker_result)
  qed
qed

theorem typechecker_result_shape_witness:
  "fst (typechecker (ImportError :: unit import_outcome) (lit ''--strict'') (lit ''x = 1'')
        \<lparr>stdout = [], calls = []\<rparr>) = Inr (PyStr not_installed)
   \<and> fst (typechecker (Imported (\<lambda>argv. Inr (lit ''ok summary'', [], 1) :: unit + pystr \<times> pystr \<times> int)) (lit ''--strict'') (lit ''x = 1'')
        \<lparr>stdout = [], calls = []\<rparr>) = Inr (PyInt 1)
   \<and> fst (typechecker (Imported (\<lambda>argv. Inl argv :: pystr list + pystr \<times> pystr \<times> int)) (lit ''--strict'') (lit ''x = 1'')
        \<lparr>stdout = [], calls = []\<rparr>) = Inl [lit ''-c'', lit ''x = 1'', lit ''--strict'']"
proof -
  have tok: "split (lit ''--strict'') = [lit ''--strict'']"
    by (simp add: lit_def isspace_def)
  show ?thesis
    using typechecker_result_shape [of "ImportError :: unit import_outcome" "lit ''--strict''"
        "lit ''x = 1''" "\<lparr>stdout = [], calls = []\<rparr>"]
      typechecker_result_shape [of "Imported (\<lambda>argv. Inr (lit ''ok summary'', [], 1) :: unit + pystr \<times> pystr \<times> int)" "lit ''--strict''"
        "lit ''x = 1''" "\<lparr>stdout = [], calls = []\<rparr>"]
      typechecker_result_shape [of "Imported (\<lambda>argv. Inl argv :: pystr list + pystr \<times> pystr \<times> int)" "lit ''--strict''"
        "lit ''x = 1''" "\<lparr>stdout = [], calls = []\<rparr>"]
    by (simp add: tok)
qed

section \<open>The triple of mytuples.py\<close>

text \<open>
  C6. For all integers \<open>a\<close>, \<open>b\<close> and \<open>c\<close>, \<^verbatim>\<open>my_tuple0(a, b, c)\<close> is the tuple of
  length 3 whose items are \<open>a\<close>, \<open>b\<close>, \<open>c\<close> in this order.
\<close>

theorem my_tuple0_triple:
  "my_tuple0 a b c = Tuple [a, b, c]
   \<and> length (items (my_tuple0 a b c)) = 3
   \<and> items (my_tuple0 a b c) ! 0 = a
   \<and> items (my_tuple0 a b c) ! 1 = b
   \<and> items (my_tuple0 a b c) ! 2 = c"
  by (simp add: my_tuple0_eq)

text \<open>
  C7. The annotations of \<^verbatim>\<open>my_tuple0\<close> have exactly the keys \<^verbatim>\<open>a\<close>, \<^verbatim>\<open>b\<close>, \<^verbatim>\<open>c\<close> and
  \<^verbatim>\<open>return\<close>, bound to \<^verbatim>\<open>int\<close>, \<^verbatim>\<open>int\<close>, \<^verbatim>\<open>int\<close> and \<^verbatim>\<open>tuple\<close>, for the first definition
  and for the second.
\<close>

theorem my_tuple0_annotations:
  "map_of (annotations my_tuple0_def) =
     [lit ''a'' \<mapsto> Int_class, lit ''b'' \<mapsto> Int_class, lit ''c'' \<mapsto> Int_class,
      lit ''return'' \<mapsto> Tuple_class]
   \<and> map_of (annotations my_tuple0_redef_def) =
     [lit ''a'' \<mapsto> Int_class, lit ''b'' \<mapsto> Int_class, lit ''c'' \<mapsto> Int_class,
      lit ''return'' \<mapsto> Tuple_class]
   \<and> fst ` set (annotations my_tuple0_def) = {lit ''a'', lit ''b'', lit ''c'', lit ''return''}
   \<and> fst ` set (annotations my_tuple0_redef_def) =
       {lit ''a'', lit ''b'', lit ''c'', lit ''return''}
   \<and> distinct (map fst (annotations my_tuple0_def))
   \<and> distinct (map fst (annotations my_tuple0_redef_def))"
proof -
  have m: "map_of [(lit ''a'', Int_class), (lit ''b'', Int_class), (lit ''c'', Int_class),
                   (lit ''return'', Tuple_class)] =
           [lit ''a'' \<mapsto> Int_class, lit ''b'' \<mapsto> Int_class, lit ''c'' \<mapsto> Int_class,
            lit ''return'' \<mapsto> Tuple_class]"
    by (rule ext) (simp add: lit_def)
  have d: "distinct [lit ''a'', lit ''b'', lit ''c'', lit ''return'']"
    by (simp add: lit_def)
  show ?thesis
    using m d by (simp add: annotations_my_tuple0_def annotations_my_tuple0_redef_def)
qed

text \<open>
  C8. The two definitions of \<^verbatim>\<open>my_tuple0\<close> are the same function, with the same
  annotations, and the script prints twice the same two lines: the tuple shown as
  \<^verbatim>\<open>(4, 7, -5)\<close>, then the annotations.
\<close>

theorem my_tuple0_duplicate:
  "my_tuple0 = my_tuple0_redef
   \<and> my_tuple0_def = my_tuple0_redef_def
   \<and> mytuples out =
       out @ lit ''A tuple of int:  (4, 7, -5)\<newline>''
           @ lit ''Type annotations of my_tuple function: \<newline> {'a': <class 'int'>, 'b': <class 'int'>, 'c': <class 'int'>, 'return': <class 'tuple'>}\<newline>''
           @ lit ''A tuple of int:  (4, 7, -5)\<newline>''
           @ lit ''Type annotations of my_tuple function: \<newline> {'a': <class 'int'>, 'b': <class 'int'>, 'c': <class 'int'>, 'return': <class 'tuple'>}\<newline>''"
proof (intro conjI)
  show eq: "my_tuple0 = my_tuple0_redef"
    by (intro ext) (simp add: my_tuple0_eq my_tuple0_redef_eq)
  show "my_tuple0_def = my_tuple0_redef_def"
    by (simp add: my_tuple0_def_def my_tuple0_redef_def_def eq)
  have c1: "call my_tuple0_def 4 7 (- 5) = Tuple [4, 7, - 5]"
    by (simp add: my_tuple0_def_def def_function_def my_tuple0_eq)
  have c2: "call my_tuple0_redef_def 4 7 (- 5) = Tuple [4, 7, - 5]"
    by (simp add: my_tuple0_redef_def_def def_function_def my_tuple0_redef_eq)
  show "mytuples out =
       out @ lit ''A tuple of int:  (4, 7, -5)\<newline>''
           @ lit ''Type annotations of my_tuple function: \<newline> {'a': <class 'int'>, 'b': <class 'int'>, 'c': <class 'int'>, 'return': <class 'tuple'>}\<newline>''
           @ lit ''A tuple of int:  (4, 7, -5)\<newline>''
           @ lit ''Type annotations of my_tuple function: \<newline> {'a': <class 'int'>, 'b': <class 'int'>, 'c': <class 'int'>, 'return': <class 'tuple'>}\<newline>''"
    unfolding mytuples_def
    by (simp only: demo_output [OF c1 annotations_my_tuple0_def]
          demo_output [OF c2 annotations_my_tuple0_redef_def] append_assoc)
qed

section \<open>Determinism and whitespace-only lines\<close>

text \<open>
  C9. For a fixed line, cell and behaviour of the import and of \<^verbatim>\<open>run\<close>, the result of
  \<^verbatim>\<open>typechecker\<close> and the text it prints do not depend on the world it starts in; so
  two invocations, the second one starting where the first one ended, return equal
  results and print the same text.
\<close>

theorem typechecker_deterministic:
  "fst (typechecker imp line cell w) = fst (typechecker imp line cell w')
   \<and> printed w (snd (typechecker imp line cell w)) =
       printed w' (snd (typechecker imp line cell w'))
   \<and> (let (r1, w1) = typechecker imp line cell w;
           (r2, w2) = typechecker imp line cell w1
       in r1 = r2 \<and> printed w w1 = printed w1 w2)"
proof -
  have general: "fst (typechecker imp line cell u) = fst (typechecker imp line cell u')
      \<and> printed u (snd (typechecker imp line cell u)) =
          printed u' (snd (typechecker imp line cell u'))" for u u'
  proof (cases imp)
    case ImportError
    then show ?thesis by (simp add: typechecker_def printed_def)
  next
    case (Imported run)
    show ?thesis
    proof (cases "run ([lit ''-c'', cell] @ split line)")
      case (Inl e)
      then show ?thesis
        using Imported by (simp add: typechecker_Imported_Inl printed_def)
    next
      case (Inr result)
      then obtain out err status where
        r: "run ([lit ''-c'', cell] @ split line) = Inr (out, err, status)"
        by (cases result) auto
      then show ?thesis
        using Imported by (simp add: typechecker_Imported_Inr printed_def)
    qed
  qed
  show ?thesis
    using general [of w w'] general [of w "snd (typechecker imp line cell w)"]
    by (simp add: case_prod_unfold)
qed

text \<open>
  C10. For a line that is not empty and holds whitespace only, \<^verbatim>\<open>typechecker\<close> does
  all that it does for the empty line: it applies \<^verbatim>\<open>run\<close> to \<^verbatim>\<open>-c\<close> and the cell alone
  (its result is what \<^verbatim>\<open>run\<close> gives at this list, and a \<^verbatim>\<open>run\<close> that hands its
  argument list back shows the list itself), once.
\<close>

theorem typechecker_whitespace_line:
  assumes "line \<noteq> []" and "\<forall>c\<in>set line. isspace c"
  shows "typechecker (Imported run) line cell w = typechecker (Imported run) [] cell w
         \<and> fst (typechecker (Imported run) line cell w) =
             (case run [lit ''-c'', cell] of
                Inl e \<Rightarrow> Inl e
              | Inr (out, err, status) \<Rightarrow> Inr (PyInt status))
         \<and> fst (typechecker (Imported (\<lambda>argv. Inl argv :: pystr list + pystr \<times> pystr \<times> int)) line cell w) = Inl [lit ''-c'', cell]
         \<and> calls (snd (typechecker (Imported run) line cell w)) = calls w @ [[lit ''-c'', cell]]
         \<and> calls (snd (typechecker (Imported run) line cell w)) =
             calls (snd (typechecker (Imported run) [] cell w))"
proof -
  have none: "split line = []"
    using assms(2) by (rule split_all_space)
  have same: "typechecker (Imported run) line cell w = typechecker (Imported run) [] cell w"
    using none by (rule typechecker_no_tokens)
  have res: "fst (typechecker (Imported run) line cell w) =
             (case run [lit ''-c'', cell] of
                Inl e \<Rightarrow> Inl e
              | Inr (out, err, status) \<Rightarrow> Inr (PyInt status))"
    by (simp add: typechecker_result none)
  have probe: "fst (typechecker (Imported (\<lambda>argv. Inl argv :: pystr list + pystr \<times> pystr \<times> int)) line cell w) = Inl [lit ''-c'', cell]"
    by (simp add: typechecker_result none)
  have log: "calls (snd (typechecker (Imported run) line cell w)) = calls w @ [[lit ''-c'', cell]]"
    by (simp add: typechecker_calls none)
  show ?thesis
    using same res probe log by simp
qed

theorem typechecker_whitespace_line_witness:
  "[32, 9, 10, 160, 8195] \<noteq> ([] :: pystr)
   \<and> isspace 32 \<and> isspace 9 \<and> isspace 10 \<and> isspace 160 \<and> isspace 8195
   \<and> fst (typechecker (Imported (\<lambda>argv. Inl argv :: pystr list + pystr \<times> pystr \<times> int)) [32, 9, 10, 160, 8195] (lit ''x = 1'') \<lparr>stdout = [], calls = []\<rparr>) =
       Inl [lit ''-c'', lit ''x = 1'']
   \<and> typechecker (Imported (\<lambda>argv. Inr ([], [], 0) :: unit + pystr \<times> pystr \<times> int)) [32, 9, 10, 160, 8195] (lit ''x = 1'') \<lparr>stdout = [], calls = []\<rparr> =
       typechecker (Imported (\<lambda>argv. Inr ([], [], 0) :: unit + pystr \<times> pystr \<times> int)) [] (lit ''x = 1'') \<lparr>stdout = [], calls = []\<rparr>
   \<and> calls (snd (typechecker (Imported (\<lambda>argv. Inr ([], [], 0) :: unit + pystr \<times> pystr \<times> int))
        [32, 9, 10, 160, 8195] (lit ''x = 1'') \<lparr>stdout = [], calls = []\<rparr>)) =
       [[lit ''-c'', lit ''x = 1'']]"
proof -
  have sp: "isspace 32 \<and> isspace 9 \<and> isspace 10 \<and> isspace 160 \<and> isspace 8195"
    by (simp add: isspace_def)
  then have all: "\<forall>c\<in>set [32, 9, 10, 160, 8195]. isspace c"
    by simp
  have ne: "[32, 9, 10, 160, 8195] \<noteq> ([] :: pystr)"
    by simp
  note t = typechecker_whitespace_line [OF ne all, of "(\<lambda>argv. Inr ([], [], 0) :: unit + pystr \<times> pystr \<times> int)" "lit ''x = 1''" "\<lparr>stdout = [], calls = []\<rparr>"]
  from t have probe:
    "fst (typechecker (Imported (\<lambda>argv. Inl argv :: pystr list + pystr \<times> pystr \<times> int)) [32, 9, 10, 160, 8195] (lit ''x = 1'') \<lparr>stdout = [], calls = []\<rparr>) =
       Inl [lit ''-c'', lit ''x = 1'']"
    by blast
  from t have same:
    "typechecker (Imported (\<lambda>argv. Inr ([], [], 0) :: unit + pystr \<times> pystr \<times> int)) [32, 9, 10, 160, 8195] (lit ''x = 1'') \<lparr>stdout = [], calls = []\<rparr> =
       typechecker (Imported (\<lambda>argv. Inr ([], [], 0) :: unit + pystr \<times> pystr \<times> int)) [] (lit ''x = 1'') \<lparr>stdout = [], calls = []\<rparr>"
    by blast
  from t have "calls (snd (typechecker (Imported (\<lambda>argv. Inr ([], [], 0) :: unit + pystr \<times> pystr \<times> int))
        [32, 9, 10, 160, 8195] (lit ''x = 1'') \<lparr>stdout = [], calls = []\<rparr>)) =
       calls \<lparr>stdout = [], calls = []\<rparr> @ [[lit ''-c'', lit ''x = 1'']]"
    by blast
  then have log: "calls (snd (typechecker (Imported (\<lambda>argv. Inr ([], [], 0) :: unit + pystr \<times> pystr \<times> int))
        [32, 9, 10, 160, 8195] (lit ''x = 1'') \<lparr>stdout = [], calls = []\<rparr>)) =
       [[lit ''-c'', lit ''x = 1'']]"
    by simp
  from ne sp probe same log show ?thesis
    by blast
qed

end
